theory Spec2Isabelle
  imports Complex_Main "HOL-Library.Sublist"
begin

section \<open>The float64 amounts of a Measure\<close>

text \<open>
  \<^verbatim>\<open>Measure\<close> (package ct) keeps one \<^verbatim>\<open>float64\<close> and overlays three sentinels on it.
  The code never does arithmetic on the amount: it compares (\<^verbatim>\<open>==\<close>, \<^verbatim>\<open><\<close>, \<^verbatim>\<open><=\<close>,
  \<^verbatim>\<open>>=\<close>), tests for NaN and for minus infinity. A \<^verbatim>\<open>float64\<close> is therefore modelled by
  its IEEE-754 class: NaN, the two infinities, or a finite number \<open>Num r\<close> standing for
  the double whose value is \<open>r\<close>. The two signed zeros compare equal in Go and are both
  \<open>Num 0\<close>. Every finite double is some \<open>Num r\<close>, so what holds for all \<open>r\<close> holds for all
  doubles. The comparisons below are the IEEE ones: every comparison with NaN is false.
\<close>

datatype float64 = NaN | NegInf | PosInf | Num real

fun f64_eq :: "float64 \<Rightarrow> float64 \<Rightarrow> bool" where
  "f64_eq (Num a) (Num b) = (a = b)"
| "f64_eq NegInf NegInf = True"
| "f64_eq PosInf PosInf = True"
| "f64_eq _ _ = False"

fun f64_lt :: "float64 \<Rightarrow> float64 \<Rightarrow> bool" where
  "f64_lt (Num a) (Num b) = (a < b)"
| "f64_lt (Num a) PosInf = True"
| "f64_lt NegInf (Num b) = True"
| "f64_lt NegInf PosInf = True"
| "f64_lt _ _ = False"

definition f64_le :: "float64 \<Rightarrow> float64 \<Rightarrow> bool" where
  "f64_le a b = (f64_lt a b \<or> f64_eq a b)"

definition f64_ge :: "float64 \<Rightarrow> float64 \<Rightarrow> bool" where
  "f64_ge a b = f64_le b a"

text \<open>\<^verbatim>\<open>math.IsNaN(f)\<close> is \<^verbatim>\<open>f != f\<close>; \<^verbatim>\<open>math.IsInf(f, sign)\<close> tests for the infinity of that sign
  (either one when \<^verbatim>\<open>sign == 0\<close>).\<close>

definition math_IsNaN :: "float64 \<Rightarrow> bool" where
  "math_IsNaN f = (\<not> f64_eq f f)"

definition math_IsInf :: "float64 \<Rightarrow> int \<Rightarrow> bool" where
  "math_IsInf f sign = (sign \<ge> 0 \<and> f = PosInf \<or> sign \<le> 0 \<and> f = NegInf)"

section \<open>Text classification of measurements\<close>

text \<open>Go strings are byte sequences; \<open>string\<close> is a list of 8-bit characters.
  The functions of package \<^verbatim>\<open>strings\<close> that the code calls, on bytes.\<close>

definition strings_Count :: "string \<Rightarrow> char \<Rightarrow> nat" where
  "strings_Count s c = length (filter (\<lambda>x. x = c) s)"

definition strings_ContainsAny :: "string \<Rightarrow> string \<Rightarrow> bool" where
  "strings_ContainsAny s chars = list_ex (\<lambda>c. c \<in> set chars) s"

definition strings_HasPrefix :: "string \<Rightarrow> string \<Rightarrow> bool" where
  "strings_HasPrefix s p = (take (length p) s = p)"

definition strings_HasSuffix :: "string \<Rightarrow> string \<Rightarrow> bool" where
  "strings_HasSuffix s p = (length p \<le> length s \<and> drop (length s - length p) s = p)"

fun strings_Contains :: "string \<Rightarrow> string \<Rightarrow> bool" where
  "strings_Contains [] sub = (sub = [])"
| "strings_Contains (c # cs) sub = (strings_HasPrefix (c # cs) sub \<or> strings_Contains cs sub)"

definition strings_TrimPrefix :: "string \<Rightarrow> string \<Rightarrow> string" where
  "strings_TrimPrefix s p = (if strings_HasPrefix s p then drop (length p) s else s)"

definition strings_TrimSuffix :: "string \<Rightarrow> string \<Rightarrow> string" where
  "strings_TrimSuffix s p = (if strings_HasSuffix s p then take (length s - length p) s else s)"

definition IsTraceMeasurement :: "string \<Rightarrow> bool" where
  "IsTraceMeasurement str =
     (if str = ''TRC'' \<or> strings_Contains str ''LOQ'' \<or> strings_HasPrefix str ''<''
      then True else False)"

definition IsEmptyMeasurement :: "string \<Rightarrow> bool" where
  "IsEmptyMeasurement str =
     (if str = '''' \<or> str = ''.'' \<or> str = ''-'' \<or> strings_HasPrefix str ''--''
      then True else False)"

definition isLetter :: "char \<Rightarrow> bool" where
  "isLetter c = (let r = (of_char c :: nat) in
     (of_char CHR ''a'' \<le> r \<and> r \<le> of_char CHR ''z'') \<or>
     (of_char CHR ''A'' \<le> r \<and> r \<le> of_char CHR ''Z''))"

text \<open>The failures of the measurement code: the run-time panic of an index out of range,
  the error of \<^verbatim>\<open>strconv.ParseFloat\<close>, and the error of \<^verbatim>\<open>UnmarshalJSON\<close>.\<close>

datatype error = IndexOutOfRange | ParseFloatError | UnmarshalError

text \<open>The blacklist \<^verbatim>\<open>",`/()"\<close> of \<^verbatim>\<open>IsErrorMeasurement\<close>; the backquote is byte 0x60.\<close>

definition errorChars :: string where
  "errorChars = [CHR '','', CHR 0x60, CHR ''/'', CHR ''('', CHR '')'']"

text \<open>\<^verbatim>\<open>str[0]\<close> panics on the empty string: that is the \<open>Inl IndexOutOfRange\<close> branch.\<close>

definition IsErrorMeasurement :: "string \<Rightarrow> error + bool" where
  "IsErrorMeasurement str =
     (if strings_Count str CHR ''.'' > 1 then Inr True
      else if strings_ContainsAny str errorChars then Inr True
      else (case str of
              [] \<Rightarrow> Inl IndexOutOfRange
            | c # _ \<Rightarrow>
                if isLetter c then Inr True
                else if str = ''0<0.10'' \<or> strings_HasPrefix str ''terpinolene: 1.22''
                        \<or> strings_HasPrefix str ''a-Ocimene: 1.08''
                then Inr True
                else Inr False))"

section \<open>Measure\<close>

definition measureEmptySentinel :: float64 where
  "measureEmptySentinel = Num 0"

definition measureZeroSentinel :: float64 where
  "measureZeroSentinel = NaN"

definition measureTraceSentinel :: float64 where
  "measureTraceSentinel = NegInf"

definition measureErrorSentinel :: float64 where
  "measureErrorSentinel = NegInf"

definition measureSentinelize :: "float64 \<Rightarrow> float64" where
  "measureSentinelize amount =
     (if f64_eq amount (Num 0) then measureZeroSentinel
      else if f64_lt amount (Num 0) then measureTraceSentinel
      else amount)"

record Measure =
  amount :: float64

definition NewMeasure :: "float64 \<Rightarrow> Measure" where
  "NewMeasure a = \<lparr>amount = measureSentinelize a\<rparr>"

definition NewEmptyMeasure :: Measure where
  "NewEmptyMeasure = \<lparr>amount = measureEmptySentinel\<rparr>"

definition NewTraceMeasure :: Measure where
  "NewTraceMeasure = \<lparr>amount = measureTraceSentinel\<rparr>"

definition NewErrorMeasure :: Measure where
  "NewErrorMeasure = \<lparr>amount = measureTraceSentinel\<rparr>"

definition IsEmpty :: "Measure \<Rightarrow> bool" where
  "IsEmpty m = f64_eq (amount m) measureEmptySentinel"

definition IsNil :: "Measure \<Rightarrow> bool" where
  "IsNil m = f64_eq (amount m) measureEmptySentinel"

definition IsTrace :: "Measure \<Rightarrow> bool" where
  "IsTrace m = math_IsInf (amount m) (-1)"

definition IsZero :: "Measure \<Rightarrow> bool" where
  "IsZero m = math_IsNaN (amount m)"

text \<open>\<^verbatim>\<open>Amount\<close> returns (result, trace, empty).\<close>

definition Amount :: "Measure \<Rightarrow> float64 \<times> bool \<times> bool" where
  "Amount m =
     (if IsEmpty m then (Num 0, False, True)
      else if IsZero m then (Num 0, False, False)
      else if IsTrace m then (Num 0, True, False)
      else (amount m, False, False))"

definition IsEqual :: "Measure \<Rightarrow> Measure \<Rightarrow> bool" where
  "IsEqual m other = f64_eq (amount m) (amount other)"

definition IsValidPercent :: "Measure \<Rightarrow> bool" where
  "IsValidPercent m =
     (if IsZero m \<or> IsEmpty m \<or> IsTrace m then True
      else f64_ge (amount m) (Num 0) \<and> f64_le (amount m) (Num 100))"

text \<open>
  The four states of a measurement value, read off a \<^verbatim>\<open>Measure\<close> with the code's own
  predicates in the order in which \<^verbatim>\<open>Amount\<close>, \<^verbatim>\<open>MarshalJSON\<close>, \<^verbatim>\<open>AsSQL\<close> and \<^verbatim>\<open>AsCSV\<close> test
  them. A measure is numeric when none of the three predicates holds.
\<close>

datatype measure_state = StEmpty | StZero | StTrace | StNumeric float64

definition state_of :: "Measure \<Rightarrow> measure_state" where
  "state_of m =
     (if IsEmpty m then StEmpty
      else if IsZero m then StZero
      else if IsTrace m then StTrace
      else StNumeric (amount m))"

section \<open>Parsing\<close>

text \<open>
  \<^verbatim>\<open>FromString\<close> writes through its receiver and returns an error. The model takes the
  measure before the call and returns the measure after it, or the error (the receiver
  is then unchanged). \<^verbatim>\<open>strconv.ParseFloat(str, 64)\<close> belongs to the Go library; it is the
  parameter \<open>pf\<close>, \<open>None\<close> being its error. A panic of \<^verbatim>\<open>IsErrorMeasurement\<close> would unwind
  through \<^verbatim>\<open>FromString\<close>.
\<close>

definition FromString :: "(string \<Rightarrow> float64 option) \<Rightarrow> Measure \<Rightarrow> string \<Rightarrow> error + Measure" where
  "FromString pf m str =
     (if IsEmptyMeasurement str then Inr (m\<lparr>amount := measureEmptySentinel\<rparr>)
      else (case IsErrorMeasurement str of
              Inl e \<Rightarrow> Inl e
            | Inr True \<Rightarrow> Inr (m\<lparr>amount := measureEmptySentinel\<rparr>)
            | Inr False \<Rightarrow>
                if IsTraceMeasurement str then Inr (m\<lparr>amount := measureTraceSentinel\<rparr>)
                else
                  (let str1 = strings_TrimPrefix str '','';
                       str2 = strings_TrimPrefix str1 ''>'';
                       str3 = strings_TrimSuffix str2 ''%''
                   in case pf str3 of
                        None \<Rightarrow> Inl ParseFloatError
                      | Some val \<Rightarrow> Inr (m\<lparr>amount := measureSentinelize val\<rparr>))))"

section \<open>JSON form\<close>

text \<open>
  \<^verbatim>\<open>MarshalJSON\<close> never returns an error, so the model returns the bytes.
  \<^verbatim>\<open>fmt.Sprintf("%f", x)\<close> is the parameter \<open>fmtf\<close>; it is only called on the amount of a
  numeric measure.
\<close>

definition MarshalJSON :: "(float64 \<Rightarrow> string) \<Rightarrow> Measure \<Rightarrow> string" where
  "MarshalJSON fmtf m =
     (if IsEmpty m then []
      else if IsZero m then ''0''
      else if IsTrace m then ''<0.01''
      else fmtf (amount m))"

text \<open>
  \<^verbatim>\<open>json.Unmarshal\<close> of package \<^verbatim>\<open>encoding/json\<close>, at the two target types the code uses.
  A JSON text is one value between optional blanks (space, tab, line feed, carriage
  return). Into a \<^verbatim>\<open>string\<close> it succeeds on a string literal, whose first byte is the
  double quote (0x22), and on \<^verbatim>\<open>null\<close>, which leaves the target at its zero value; into a
  \<^verbatim>\<open>float64\<close> it succeeds on a number, whose first byte is a minus sign or a digit, and on
  \<^verbatim>\<open>null\<close>. Every other input is an error. The decoding of a string literal and of a
  number are the parameters \<open>jstr\<close> and \<open>jnum\<close> (\<open>None\<close> is an error).
\<close>

definition json_isSpace :: "char \<Rightarrow> bool" where
  "json_isSpace c = (c = CHR '' '' \<or> c = CHR 0x09 \<or> c = CHR 0x0A \<or> c = CHR 0x0D)"

definition json_trim :: "string \<Rightarrow> string" where
  "json_trim b = rev (dropWhile json_isSpace (rev (dropWhile json_isSpace b)))"

definition isDigit :: "char \<Rightarrow> bool" where
  "isDigit c = (of_char CHR ''0'' \<le> (of_char c :: nat) \<and> (of_char c :: nat) \<le> of_char CHR ''9'')"

definition json_Unmarshal_string :: "(string \<Rightarrow> string option) \<Rightarrow> string \<Rightarrow> string option" where
  "json_Unmarshal_string jstr b =
     (case json_trim b of
        [] \<Rightarrow> None
      | c # cs \<Rightarrow>
          if c = CHR 0x22 then jstr (c # cs)
          else if c # cs = ''null'' then Some []
          else None)"

definition json_Unmarshal_float64 :: "(string \<Rightarrow> float64 option) \<Rightarrow> string \<Rightarrow> float64 option" where
  "json_Unmarshal_float64 jnum b =
     (case json_trim b of
        [] \<Rightarrow> None
      | c # cs \<Rightarrow>
          if c = CHR ''-'' \<or> isDigit c then jnum (c # cs)
          else if c # cs = ''null'' then Some (Num 0)
          else None)"

definition UnmarshalJSON ::
  "(string \<Rightarrow> string option) \<Rightarrow> (string \<Rightarrow> float64 option) \<Rightarrow> (string \<Rightarrow> float64 option)
     \<Rightarrow> Measure \<Rightarrow> string \<Rightarrow> error + Measure" where
  "UnmarshalJSON jstr jnum pf m b =
     (if b = ''null'' then Inr (m\<lparr>amount := measureEmptySentinel\<rparr>)
      else (case json_Unmarshal_string jstr b of
              Some str \<Rightarrow> FromString pf m str
            | None \<Rightarrow>
                (case json_Unmarshal_float64 jnum b of
                   Some val \<Rightarrow> Inr (m\<lparr>amount := measureSentinelize val\<rparr>)
                 | None \<Rightarrow> Inl UnmarshalError)))"

section \<open>Brand records and their validation\<close>

record Image =
  URL :: string
  Description :: string

text \<open>The raw brand record of \<^verbatim>\<open>ct.go\<close>, field for field. \<^verbatim>\<open>ApprovalDate\<close> is an instant
  (\<^verbatim>\<open>iso8601.Time\<close>), kept as a number of nanoseconds.\<close>

record Brand =
  BrandName :: string
  DosageForm :: string
  BrandingEntity :: string
  ProductImage :: Image
  LabelImage :: Image
  LabAnalysis :: Image
  ApprovalDate :: int
  RegistrationNumber :: string
  TetrahydrocannabinolThc :: Measure
  TetrahydrocannabinolAcidThca :: Measure
  CannabidiolsCbd :: Measure
  CannabidiolAcidCbda :: Measure
  APinene :: Measure
  BMyrcene :: Measure
  BCaryophyllene :: Measure
  BPinene :: Measure
  Limonene :: Measure
  Ocimene :: Measure
  LinaloolLin :: Measure
  HumuleneHum :: Measure
  Cbg :: Measure
  CbgA :: Measure
  CannabavarinCbdv :: Measure
  CannabichromeneCbc :: Measure
  CannbinolCbn :: Measure
  TetrahydrocannabivarinThcv :: Measure
  ABisabolol :: Measure
  APhellandrene :: Measure
  ATerpinene :: Measure
  BEudesmol :: Measure
  BTerpinene :: Measure
  Fenchone :: Measure
  Pulegol :: Measure
  Borneol :: Measure
  Isopulegol :: Measure
  Carene :: Measure
  Camphene :: Measure
  Camphor :: Measure
  CaryophylleneOxide :: Measure
  Cedrol :: Measure
  Eucalyptol :: Measure
  Geraniol :: Measure
  Guaiol :: Measure
  GeranylAcetate :: Measure
  Isoborneol :: Measure
  Menthol :: Measure
  LFenchone :: Measure
  Nerol :: Measure
  Sabinene :: Measure
  Terpineol :: Measure
  Terpinolene :: Measure
  TransBFarnesene :: Measure
  Valencene :: Measure
  ACedrene :: Measure
  AFarnesene :: Measure
  BFarnesene :: Measure
  CisNerolidol :: Measure
  Fenchol :: Measure
  TransNerolidol :: Measure
  Market :: string
  Chemotype :: string
  ProcessingTechnique :: string
  SolventsUsed :: string
  NationalDrugCode :: string

text \<open>\<^verbatim>\<open>IsBrandErroneous\<close>: the name test, then one \<^verbatim>\<open>||\<close> chain over the measures, in the
  order of the source.\<close>

definition IsBrandErroneous :: "Brand \<Rightarrow> bool" where
  "IsBrandErroneous b =
     (if BrandName b = '''' then True
      else if
        \<not> IsValidPercent (TetrahydrocannabinolThc b) \<or>
        \<not> IsValidPercent (TetrahydrocannabinolAcidThca b) \<or>
        \<not> IsValidPercent (CannabidiolsCbd b) \<or>
        \<not> IsValidPercent (CannabidiolAcidCbda b) \<or>
        \<not> IsValidPercent (APinene b) \<or>
        \<not> IsValidPercent (BMyrcene b) \<or>
        \<not> IsValidPercent (BCaryophyllene b) \<or>
        \<not> IsValidPercent (BPinene b) \<or>
        \<not> IsValidPercent (Limonene b) \<or>
        \<not> IsValidPercent (Ocimene b) \<or>
        \<not> IsValidPercent (LinaloolLin b) \<or>
        \<not> IsValidPercent (HumuleneHum b) \<or>
        \<not> IsValidPercent (Cbg b) \<or>
        \<not> IsValidPercent (CbgA b) \<or>
        \<not> IsValidPercent (CannabavarinCbdv b) \<or>
        \<not> IsValidPercent (CannabichromeneCbc b) \<or>
        \<not> IsValidPercent (CannbinolCbn b) \<or>
        \<not> IsValidPercent (TetrahydrocannabivarinThcv b) \<or>
        \<not> IsValidPercent (ABisabolol b) \<or>
        \<not> IsValidPercent (APhellandrene b) \<or>
        \<not> IsValidPercent (ATerpinene b) \<or>
        \<not> IsValidPercent (BEudesmol b) \<or>
        \<not> IsValidPercent (BTerpinene b) \<or>
        \<not> IsValidPercent (Fenchone b) \<or>
        \<not> IsValidPercent (Pulegol b) \<or>
        \<not> IsValidPercent (Borneol b) \<or>
        \<not> IsValidPercent (Isopulegol b) \<or>
        \<not> IsValidPercent (Carene b) \<or>
        \<not> IsValidPercent (Camphene b) \<or>
        \<not> IsValidPercent (Camphor b) \<or>
        \<not> IsValidPercent (CaryophylleneOxide b) \<or>
        \<not> IsValidPercent (Cedrol b) \<or>
        \<not> IsValidPercent (Eucalyptol b) \<or>
        \<not> IsValidPercent (Geraniol b) \<or>
        \<not> IsValidPercent (Guaiol b) \<or>
        \<not> IsValidPercent (GeranylAcetate b) \<or>
        \<not> IsValidPercent (Isoborneol b) \<or>
        \<not> IsValidPercent (Menthol b) \<or>
        \<not> IsValidPercent (LFenchone b) \<or>
        \<not> IsValidPercent (Nerol b) \<or>
        \<not> IsValidPercent (Sabinene b) \<or>
        \<not> IsValidPercent (Terpineol b) \<or>
        \<not> IsValidPercent (Terpinolene b) \<or>
        \<not> IsValidPercent (TransBFarnesene b) \<or>
        \<not> IsValidPercent (Valencene b) \<or>
        \<not> IsValidPercent (ACedrene b) \<or>
        \<not> IsValidPercent (AFarnesene b) \<or>
        \<not> IsValidPercent (BFarnesene b) \<or>
        \<not> IsValidPercent (CisNerolidol b) \<or>
        \<not> IsValidPercent (Fenchol b) \<or>
        \<not> IsValidPercent (TransNerolidol b)
      then True
      else False)"

text \<open>\<^verbatim>\<open>slices.DeleteFunc(bs, del)\<close> removes the elements for which \<^verbatim>\<open>del\<close> holds and keeps the
  others in their order; the returned slice is what the caller uses.\<close>

definition slices_DeleteFunc :: "'a list \<Rightarrow> ('a \<Rightarrow> bool) \<Rightarrow> 'a list" where
  "slices_DeleteFunc s del = filter (\<lambda>x. \<not> del x) s"

definition CleanBrands :: "Brand list \<Rightarrow> Brand list" where
  "CleanBrands bs = slices_DeleteFunc bs (\<lambda>b. IsBrandErroneous b)"

text \<open>The measurement fields of a record, in the order of the struct: the fields of type
  \<^verbatim>\<open>Measure\<close>.\<close>

definition measurementFields :: "Brand \<Rightarrow> Measure list" where
  "measurementFields b =
     [TetrahydrocannabinolThc b,
      TetrahydrocannabinolAcidThca b,
      CannabidiolsCbd b,
      CannabidiolAcidCbda b,
      APinene b,
      BMyrcene b,
      BCaryophyllene b,
      BPinene b,
      Limonene b,
      Ocimene b,
      LinaloolLin b,
      HumuleneHum b,
      Cbg b,
      CbgA b,
      CannabavarinCbdv b,
      CannabichromeneCbc b,
      CannbinolCbn b,
      TetrahydrocannabivarinThcv b,
      ABisabolol b,
      APhellandrene b,
      ATerpinene b,
      BEudesmol b,
      BTerpinene b,
      Fenchone b,
      Pulegol b,
      Borneol b,
      Isopulegol b,
      Carene b,
      Camphene b,
      Camphor b,
      CaryophylleneOxide b,
      Cedrol b,
      Eucalyptol b,
      Geraniol b,
      Guaiol b,
      GeranylAcetate b,
      Isoborneol b,
      Menthol b,
      LFenchone b,
      Nerol b,
      Sabinene b,
      Terpineol b,
      Terpinolene b,
      TransBFarnesene b,
      Valencene b,
      ACedrene b,
      AFarnesene b,
      BFarnesene b,
      CisNerolidol b,
      Fenchol b,
      TransNerolidol b]"

text \<open>A record with every text field empty and every measure empty, to build concrete
  records from.\<close>

definition blankBrand :: Brand where
  "blankBrand = \<lparr>
     BrandName = '''',
     DosageForm = '''',
     BrandingEntity = '''',
     ProductImage = \<lparr>URL = '''', Description = ''''\<rparr>,
     LabelImage = \<lparr>URL = '''', Description = ''''\<rparr>,
     LabAnalysis = \<lparr>URL = '''', Description = ''''\<rparr>,
     ApprovalDate = 0,
     RegistrationNumber = '''',
     TetrahydrocannabinolThc = NewEmptyMeasure,
     TetrahydrocannabinolAcidThca = NewEmptyMeasure,
     CannabidiolsCbd = NewEmptyMeasure,
     CannabidiolAcidCbda = NewEmptyMeasure,
     APinene = NewEmptyMeasure,
     BMyrcene = NewEmptyMeasure,
     BCaryophyllene = NewEmptyMeasure,
     BPinene = NewEmptyMeasure,
     Limonene = NewEmptyMeasure,
     Ocimene = NewEmptyMeasure,
     LinaloolLin = NewEmptyMeasure,
     HumuleneHum = NewEmptyMeasure,
     Cbg = NewEmptyMeasure,
     CbgA = NewEmptyMeasure,
     CannabavarinCbdv = NewEmptyMeasure,
     CannabichromeneCbc = NewEmptyMeasure,
     CannbinolCbn = NewEmptyMeasure,
     TetrahydrocannabivarinThcv = NewEmptyMeasure,
     ABisabolol = NewEmptyMeasure,
     APhellandrene = NewEmptyMeasure,
     ATerpinene = NewEmptyMeasure,
     BEudesmol = NewEmptyMeasure,
     BTerpinene = NewEmptyMeasure,
     Fenchone = NewEmptyMeasure,
     Pulegol = NewEmptyMeasure,
     Borneol = NewEmptyMeasure,
     Isopulegol = NewEmptyMeasure,
     Carene = NewEmptyMeasure,
     Camphene = NewEmptyMeasure,
     Camphor = NewEmptyMeasure,
     CaryophylleneOxide = NewEmptyMeasure,
     Cedrol = NewEmptyMeasure,
     Eucalyptol = NewEmptyMeasure,
     Geraniol = NewEmptyMeasure,
     Guaiol = NewEmptyMeasure,
     GeranylAcetate = NewEmptyMeasure,
     Isoborneol = NewEmptyMeasure,
     Menthol = NewEmptyMeasure,
     LFenchone = NewEmptyMeasure,
     Nerol = NewEmptyMeasure,
     Sabinene = NewEmptyMeasure,
     Terpineol = NewEmptyMeasure,
     Terpinolene = NewEmptyMeasure,
     TransBFarnesene = NewEmptyMeasure,
     Valencene = NewEmptyMeasure,
     ACedrene = NewEmptyMeasure,
     AFarnesene = NewEmptyMeasure,
     BFarnesene = NewEmptyMeasure,
     CisNerolidol = NewEmptyMeasure,
     Fenchol = NewEmptyMeasure,
     TransNerolidol = NewEmptyMeasure,
     Market = '''',
     Chemotype = '''',
     ProcessingTechnique = '''',
     SolventsUsed = '''',
     NationalDrugCode = ''''
   \<rparr>"

section \<open>The cache directory\<close>

text \<open>
  The files of \<^verbatim>\<open>dankRoot/.dank/cache\<close>, by file name. A file has its bytes and its
  modification time; \<open>readable\<close> is false for a file that \<^verbatim>\<open>os.Stat\<close> finds and
  \<^verbatim>\<open>os.ReadFile\<close> cannot read. An instant is an integer number of nanoseconds, and so is a
  \<^verbatim>\<open>time.Duration\<close>; \<open>now\<close> is the reading of the clock.
\<close>

record cache_file =
  contents :: string
  modTime :: int
  readable :: bool

type_synonym cache_dir = "string \<rightharpoonup> cache_file"

datatype cache_error = CacheNotFound | CacheTooOld | CacheReadError

definition CheckCacheFile :: "cache_dir \<Rightarrow> int \<Rightarrow> string \<Rightarrow> int \<Rightarrow> cache_error + string" where
  "CheckCacheFile fs now filename maxAge =
     (case fs filename of
        None \<Rightarrow> Inl CacheNotFound
      | Some stat \<Rightarrow>
          if maxAge \<noteq> 0 \<and> now > modTime stat + maxAge then Inl CacheTooOld
          else if \<not> readable stat then Inl CacheReadError
          else Inr (contents stat))"

text \<open>\<^verbatim>\<open>MakeCacheFile\<close> makes the directory and creates the file, truncating it. Whether
  \<^verbatim>\<open>os.MkdirAll\<close> and \<^verbatim>\<open>os.Create\<close> succeed is decided by the operating system: the parameter
  \<open>oc\<close>.\<close>

datatype create_outcome = MkdirFails | CreateFails | Created

datatype create_error = MkdirError | CreateError

definition MakeCacheFile :: "create_outcome \<Rightarrow> cache_dir \<Rightarrow> int \<Rightarrow> string \<Rightarrow> create_error + cache_dir" where
  "MakeCacheFile oc fs now filename =
     (case oc of
        MkdirFails \<Rightarrow> Inl MkdirError
      | CreateFails \<Rightarrow> Inl CreateError
      | Created \<Rightarrow> Inr (fs(filename \<mapsto> \<lparr>contents = [], modTime = now, readable = True\<rparr>)))"

text \<open>Writing to the open file appends to it (the code ignores the results of its writes);
  \<^verbatim>\<open>os.Remove\<close> deletes the file.\<close>

definition file_Write :: "cache_dir \<Rightarrow> int \<Rightarrow> string \<Rightarrow> string \<Rightarrow> cache_dir" where
  "file_Write fs now filename bytes =
     (case fs filename of
        None \<Rightarrow> fs
      | Some f \<Rightarrow> fs(filename \<mapsto> f\<lparr>contents := contents f @ bytes, modTime := now\<rparr>))"

definition os_Remove :: "cache_dir \<Rightarrow> string \<Rightarrow> cache_dir" where
  "os_Remove fs filename = fs(filename := None)"

section \<open>Fetching the brands\<close>

definition BRAND_JSON_FILENAME :: string where
  "BRAND_JSON_FILENAME = ''us_ct_brands.json''"

definition batchLimit :: nat where
  "batchLimit = 5000"

text \<open>A page request is the GET of \<^verbatim>\<open>BrandsURL\<close> with its query parameters; the token is
  only sent when it is not empty.\<close>

record page_request =
  q_order :: string
  q_offset :: nat
  q_limit :: nat
  q_app_token :: "string option"

definition pageRequest :: "string \<Rightarrow> nat \<Rightarrow> page_request" where
  "pageRequest appToken off =
     \<lparr>q_order = ''registration_number'', q_offset = off, q_limit = batchLimit,
      q_app_token = (if appToken \<noteq> '''' then Some appToken else None)\<rparr>"

text \<open>
  What comes back: \<^verbatim>\<open>client.Do\<close> fails, or there is a response with its status code, the
  bytes \<^verbatim>\<open>io.ReadAll\<close> read from its body, and whether \<^verbatim>\<open>io.ReadAll\<close> failed.
\<close>

datatype http_reply = DoError | Response int string bool

datatype fetch_error =
    CacheFileError create_error
  | TransportError
  | ReadError
  | HTTPReadError int string
  | HTTPStatusError int string
  | PageUnmarshalError

text \<open>\<^verbatim>\<open>bytes.TrimSpace\<close> at the ASCII blanks. The code applies it to a body that
  \<^verbatim>\<open>json.Unmarshal\<close> has accepted, and the ends of a JSON text hold no other blank.\<close>

definition isSpaceASCII :: "char \<Rightarrow> bool" where
  "isSpaceASCII c =
     (c = CHR '' '' \<or> c = CHR 0x09 \<or> c = CHR 0x0A \<or> c = CHR 0x0B \<or> c = CHR 0x0C \<or> c = CHR 0x0D)"

definition bytes_TrimSpace :: "string \<Rightarrow> string" where
  "bytes_TrimSpace b = rev (dropWhile isSpaceASCII (rev (dropWhile isSpaceASCII b)))"

text \<open>The variables of the loop of \<^verbatim>\<open>FetchBrands\<close>, the cache directory the open file lives
  in, and the requests sent so far.\<close>

record fetch_state =
  brands :: "Brand list"
  offset :: nat
  firstLoop :: bool
  cache :: cache_dir
  requests :: "page_request list"

datatype step_result = Continue fetch_state | Break fetch_state | Fail fetch_error fetch_state

text \<open>
  One pass through the body of the \<^verbatim>\<open>for\<close> loop. \<open>remote\<close> is the server (with the network
  in between), \<open>unmarshal\<close> is \<^verbatim>\<open>json.Unmarshal\<close> into a \<^verbatim>\<open>[]Brand\<close> (\<open>None\<close> is its error).
  \<^verbatim>\<open>http.NewRequest\<close> cannot fail on the constant URL, and \<^verbatim>\<open>cacheFile\<close> is not nil once
  \<^verbatim>\<open>MakeCacheFile\<close> has returned it. \<open>Fail\<close> is a \<^verbatim>\<open>return nil, err\<close>. The offset is a natural
  number: the \<^verbatim>\<open>int\<close> of the code does not overflow within any number of pages a run can fetch.
\<close>

definition fetchStep ::
  "(page_request \<Rightarrow> http_reply) \<Rightarrow> (string \<Rightarrow> Brand list option) \<Rightarrow> string \<Rightarrow> int
     \<Rightarrow> fetch_state \<Rightarrow> step_result" where
  "fetchStep remote unmarshal appToken now st =
     (let req = pageRequest appToken (offset st);
          st1 = st\<lparr>requests := requests st @ [req]\<rparr>
      in case remote req of
           DoError \<Rightarrow> Fail TransportError st1
         | Response statusCode body readErr \<Rightarrow>
             (let badStatusCode = (statusCode \<noteq> 200) in
              if readErr then
                (if badStatusCode then Fail (HTTPReadError statusCode body) st1
                 else Fail ReadError st1)
              else if badStatusCode then Fail (HTTPStatusError statusCode body) st1
              else
                (case unmarshal body of
                   None \<Rightarrow> Fail PageUnmarshalError st1
                 | Some brandsBatch \<Rightarrow>
                     (let st2 = st1\<lparr>brands := brands st1 @ brandsBatch\<rparr>;
                          st3 = (if \<not> firstLoop st2
                                 then st2\<lparr>cache := file_Write (cache st2) now BRAND_JSON_FILENAME '',''\<rparr>
                                 else st2);
                          st4 = st3\<lparr>firstLoop := False\<rparr>;
                          body1 = bytes_TrimSpace body;
                          body2 = strings_TrimPrefix body1 ''['';
                          body3 = strings_TrimSuffix body2 '']'';
                          st5 = st4\<lparr>cache := file_Write (cache st4) now BRAND_JSON_FILENAME body3\<rparr>
                      in if length brandsBatch < batchLimit then Break st5
                         else Continue (st5\<lparr>offset := offset st5 + batchLimit\<rparr>)))))"

text \<open>The loop has no bound: it is a partial function, \<open>None\<close> when it never leaves.
  It leaves with \<open>None\<close> for an error at the \<^verbatim>\<open>break\<close>, or with the error of a \<^verbatim>\<open>return\<close>.\<close>

partial_function (option) fetchLoop ::
  "(page_request \<Rightarrow> http_reply) \<Rightarrow> (string \<Rightarrow> Brand list option) \<Rightarrow> string \<Rightarrow> int
     \<Rightarrow> fetch_state \<Rightarrow> (fetch_error option \<times> fetch_state) option" where
  "fetchLoop remote unmarshal appToken now st =
     (case fetchStep remote unmarshal appToken now st of
        Continue st' \<Rightarrow> fetchLoop remote unmarshal appToken now st'
      | Break st' \<Rightarrow> Some (None, st')
      | Fail e st' \<Rightarrow> Some (Some e, st'))"

text \<open>
  \<^verbatim>\<open>FetchBrands\<close>, with the world it runs in: the server, the decoder, the outcome of the
  file creation, the clock and the cache directory. It returns its result (the error, or
  the records), the cache directory it leaves, and the requests it sent; \<open>None\<close> when it
  does not return. The deferred function runs at every return after the file was
  created: it closes the file, and removes it unless \<^verbatim>\<open>deleteCacheFile\<close> was cleared.
  \<^verbatim>\<open>url.Parse\<close> cannot fail on the constant URL.
\<close>

definition FetchBrands ::
  "(page_request \<Rightarrow> http_reply) \<Rightarrow> (string \<Rightarrow> Brand list option) \<Rightarrow> create_outcome \<Rightarrow> int
     \<Rightarrow> cache_dir \<Rightarrow> string \<Rightarrow> int
     \<Rightarrow> ((fetch_error + Brand list) \<times> cache_dir \<times> page_request list) option" where
  "FetchBrands remote unmarshal oc now fs appToken maxCacheAge =
     (case (case CheckCacheFile fs now BRAND_JSON_FILENAME maxCacheAge of
              Inr cacheBytes \<Rightarrow> unmarshal cacheBytes
            | Inl _ \<Rightarrow> None) of
        Some cacheBrands \<Rightarrow> Some (Inr cacheBrands, fs, [])
      | None \<Rightarrow>
          (case MakeCacheFile oc fs now BRAND_JSON_FILENAME of
             Inl err \<Rightarrow> Some (Inl (CacheFileError err), fs, [])
           | Inr fs1 \<Rightarrow>
               (let fs2 = file_Write fs1 now BRAND_JSON_FILENAME ''[''
                in case fetchLoop remote unmarshal appToken now
                          \<lparr>brands = [], offset = 0, firstLoop = True, cache = fs2, requests = []\<rparr> of
                     None \<Rightarrow> None
                   | Some (Some err, st) \<Rightarrow>
                       Some (Inl err, os_Remove (cache st) BRAND_JSON_FILENAME, requests st)
                   | Some (None, st) \<Rightarrow>
                       Some (Inr (brands st),
                             file_Write (cache st) now BRAND_JSON_FILENAME '']'',
                             requests st))))"

section \<open>The specification's patterns\<close>

text \<open>
  The error-pattern test in the specification's words: more than one decimal point, a
  character of the blacklist, a leading letter, or one of the known bad literals. It is
  defined on every string; \<^verbatim>\<open>IsErrorMeasurement\<close> is compared with it below.
\<close>

definition error_pattern :: "string \<Rightarrow> bool" where
  "error_pattern s =
     (strings_Count s CHR ''.'' > 1
      \<or> list_ex (\<lambda>c. c \<in> set errorChars) s
      \<or> (case s of [] \<Rightarrow> False | c # _ \<Rightarrow> isLetter c)
      \<or> s = ''0<0.10''
      \<or> strings_HasPrefix s ''terpinolene: 1.22''
      \<or> strings_HasPrefix s ''a-Ocimene: 1.08'')"

text \<open>The empty-pattern test: the empty string, a lone period, a lone hyphen, or a string
  starting with a double hyphen.\<close>

definition empty_pattern :: "string \<Rightarrow> bool" where
  "empty_pattern s = (s = '''' \<or> s = ''.'' \<or> s = ''-'' \<or> strings_HasPrefix s ''--'')"

section \<open>Pages\<close>

text \<open>
  What a page request delivers to the loop body: the decoded batch when the transport
  worked, the body was read, the status is 200 and the body decodes; \<open>None\<close> in each of the
  four cases in which the loop body returns an error.
\<close>

definition pageBatch ::
  "(page_request \<Rightarrow> http_reply) \<Rightarrow> (string \<Rightarrow> Brand list option) \<Rightarrow> page_request
     \<Rightarrow> Brand list option" where
  "pageBatch remote unmarshal req =
     (case remote req of
        DoError \<Rightarrow> None
      | Response statusCode body readErr \<Rightarrow>
          if readErr \<or> statusCode \<noteq> 200 then None else unmarshal body)"

text \<open>The failures of a page in the specification's words: a transport error (sending the
  request or reading the body), a status that is not success, or a body that does not
  decode.\<close>

definition pageFails ::
  "(page_request \<Rightarrow> http_reply) \<Rightarrow> (string \<Rightarrow> Brand list option) \<Rightarrow> page_request \<Rightarrow> bool" where
  "pageFails remote unmarshal req =
     (case remote req of
        DoError \<Rightarrow> True
      | Response statusCode body readErr \<Rightarrow>
          readErr \<or> statusCode \<noteq> 200 \<or> unmarshal body = None)"

section \<open>Measurement values\<close>

lemmas sentinel_defs = measureEmptySentinel_def measureZeroSentinel_def measureTraceSentinel_def

lemmas pred_defs = IsEmpty_def IsZero_def IsTrace_def math_IsNaN_def math_IsInf_def

lemma state_of_cases:
  "state_of m =
     (case amount m of
        NaN \<Rightarrow> StZero
      | NegInf \<Rightarrow> StTrace
      | PosInf \<Rightarrow> StNumeric PosInf
      | Num r \<Rightarrow> if r = 0 then StEmpty else StNumeric (Num r))"
  by (cases "amount m") (simp_all add: state_of_def pred_defs sentinel_defs)

text \<open>
  C3. \<^verbatim>\<open>IsValidPercent\<close> is true of every measure in the Empty, Zero or Trace state, and of
  a Numeric measure with value \<open>v\<close> it is true exactly when \<open>0 \<le> v \<le> 100\<close> (the comparisons
  being those of \<^verbatim>\<open>float64\<close>).
\<close>

theorem IsValidPercent_states:
  "(state_of m \<in> {StEmpty, StZero, StTrace} \<longrightarrow> IsValidPercent m) \<and>
   (\<forall>v. state_of m = StNumeric v \<longrightarrow>
        (IsValidPercent m \<longleftrightarrow> f64_le (Num 0) v \<and> f64_le v (Num 100)))"
  by (cases "amount m")
     (auto simp: state_of_def IsValidPercent_def pred_defs sentinel_defs f64_ge_def f64_le_def
           split: if_splits)

theorem IsValidPercent_states_witness:
  "IsValidPercent NewEmptyMeasure \<and> IsValidPercent (NewMeasure (Num 0)) \<and>
   IsValidPercent NewTraceMeasure \<and> IsValidPercent (NewMeasure (Num 50)) \<and>
   \<not> IsValidPercent (NewMeasure (Num 101)) \<and> \<not> IsValidPercent (NewMeasure PosInf)"
  using IsValidPercent_states [of NewEmptyMeasure] IsValidPercent_states [of "NewMeasure (Num 0)"]
    IsValidPercent_states [of NewTraceMeasure] IsValidPercent_states [of "NewMeasure (Num 50)"]
    IsValidPercent_states [of "NewMeasure (Num 101)"] IsValidPercent_states [of "NewMeasure PosInf"]
  by (simp add: state_of_cases NewEmptyMeasure_def NewMeasure_def NewTraceMeasure_def
        measureSentinelize_def sentinel_defs f64_le_def)

text \<open>
  C5. Equality of two measures is claimed to hold exactly when both are Empty, both Zero,
  both Trace, or both Numeric with the same magnitude. \<^verbatim>\<open>IsEqual\<close> compares the amounts
  with \<^verbatim>\<open>==\<close>, and the Zero sentinel is NaN: two Zero measures are not equal.
\<close>

theorem IsEqual_Zero_Zero:
  "state_of (NewMeasure (Num 0)) = StZero \<and>
   IsEqual (NewMeasure (Num 0)) (NewMeasure (Num 0)) = False"
  by (simp add: state_of_cases NewMeasure_def measureSentinelize_def sentinel_defs IsEqual_def)

text \<open>Apart from the Zero state, \<^verbatim>\<open>IsEqual\<close> is the equality of states.\<close>

lemma IsEqual_iff:
  "IsEqual a b \<longleftrightarrow>
     (state_of a = StEmpty \<and> state_of b = StEmpty) \<or>
     (state_of a = StTrace \<and> state_of b = StTrace) \<or>
     (\<exists>v. state_of a = StNumeric v \<and> state_of b = StNumeric v)"
  by (cases "amount a"; cases "amount b") (auto simp: state_of_cases IsEqual_def)

text \<open>
  C8 as stated fails at NaN: NaN is neither equal to zero nor below it, and
  \<^verbatim>\<open>NewMeasure\<close> keeps it as the amount, which is the sentinel of the Zero state.
\<close>

theorem NewMeasure_NaN_counterexample:
  "\<not> f64_eq NaN (Num 0) \<and> \<not> f64_lt NaN (Num 0) \<and>
   state_of (NewMeasure NaN) = StZero \<and> state_of (NewMeasure NaN) \<noteq> StNumeric NaN"
  by (simp add: state_of_cases NewMeasure_def measureSentinelize_def sentinel_defs)

text \<open>
  C8, amended. For every \<^verbatim>\<open>float64\<close> \<open>v\<close> other than NaN, \<^verbatim>\<open>NewMeasure v\<close> is in the Zero state
  when \<open>v == 0\<close>, in the Trace state when \<open>v < 0\<close>, and Numeric carrying \<open>v\<close> otherwise; for
  NaN it is in the Zero state.
\<close>

theorem NewMeasure_state:
  "state_of (NewMeasure v) =
     (if v = NaN \<or> f64_eq v (Num 0) then StZero
      else if f64_lt v (Num 0) then StTrace
      else StNumeric v)"
  by (cases v) (auto simp: state_of_cases NewMeasure_def measureSentinelize_def sentinel_defs)

theorem NewMeasure_state_witness:
  "state_of (NewMeasure (Num 0)) = StZero \<and> state_of (NewMeasure (Num (-3))) = StTrace \<and>
   state_of (NewMeasure (Num 50)) = StNumeric (Num 50) \<and> state_of (NewMeasure NaN) = StZero"
  using NewMeasure_state [of "Num 0"] NewMeasure_state [of "Num (-3)"]
    NewMeasure_state [of "Num 50"] NewMeasure_state [of NaN]
  by simp

text \<open>
  C6. Serializing with \<^verbatim>\<open>MarshalJSON\<close> and decoding the bytes with \<^verbatim>\<open>UnmarshalJSON\<close> is
  claimed to give back an equal measure in every state. The Trace state is written as
  the five bytes \<^verbatim>\<open><0.01\<close> with no quotes around them: they are no JSON text, and
  \<^verbatim>\<open>UnmarshalJSON\<close> returns its error on them, whatever the library decoders do elsewhere.
\<close>

theorem Marshal_Unmarshal_Trace:
  "state_of NewTraceMeasure = StTrace \<and> MarshalJSON fmtf NewTraceMeasure = ''<0.01'' \<and>
   UnmarshalJSON jstr jnum pf m (MarshalJSON fmtf NewTraceMeasure) = Inl UnmarshalError"
  by (simp add: state_of_cases NewTraceMeasure_def sentinel_defs MarshalJSON_def pred_defs
        UnmarshalJSON_def json_Unmarshal_string_def json_Unmarshal_float64_def json_trim_def
        json_isSpace_def isDigit_def)

text \<open>The Empty state is written as no bytes at all, and decoding them fails as well.\<close>

lemma Marshal_Unmarshal_Empty:
  "state_of NewEmptyMeasure = StEmpty \<and> MarshalJSON fmtf NewEmptyMeasure = [] \<and>
   UnmarshalJSON jstr jnum pf m (MarshalJSON fmtf NewEmptyMeasure) = Inl UnmarshalError"
  by (simp add: state_of_cases NewEmptyMeasure_def sentinel_defs MarshalJSON_def pred_defs
        UnmarshalJSON_def json_Unmarshal_string_def json_Unmarshal_float64_def json_trim_def
        json_isSpace_def isDigit_def)

section \<open>Order and totality of parsing\<close>

lemma IsErrorMeasurement_nonempty:
  "s \<noteq> [] \<Longrightarrow> IsErrorMeasurement s = Inr (error_pattern s)"
  by (cases s) (auto simp: IsErrorMeasurement_def error_pattern_def strings_ContainsAny_def)

lemma IsErrorMeasurement_empty: "IsErrorMeasurement [] = Inl IndexOutOfRange"
  by (simp add: IsErrorMeasurement_def strings_Count_def strings_ContainsAny_def errorChars_def)

lemma IsEmptyMeasurement_pattern: "IsEmptyMeasurement s = empty_pattern s"
  by (simp add: IsEmptyMeasurement_def empty_pattern_def)

lemma IsEmptyMeasurement_Nil: "IsEmptyMeasurement []"
  by (simp add: IsEmptyMeasurement_def)

text \<open>
  C7. A string that matches the error pattern or the empty pattern resolves to Empty,
  whether or not it also matches the trace pattern and whatever the numeric parser
  would make of it: the result is the same for every \<open>pf\<close>, so the parser is not
  consulted.
\<close>

theorem FromString_error_first:
  "error_pattern s \<or> empty_pattern s \<Longrightarrow>
     FromString pf m s = Inr (m\<lparr>amount := measureEmptySentinel\<rparr>) \<and>
     state_of (m\<lparr>amount := measureEmptySentinel\<rparr>) = StEmpty"
proof -
  assume h: "error_pattern s \<or> empty_pattern s"
  have st: "state_of (m\<lparr>amount := measureEmptySentinel\<rparr>) = StEmpty"
    by (simp add: state_of_def IsEmpty_def measureEmptySentinel_def)
  show ?thesis
  proof (cases "IsEmptyMeasurement s")
    case True
    then show ?thesis using st by (simp add: FromString_def)
  next
    case False
    then have ne: "s \<noteq> []" using IsEmptyMeasurement_Nil by auto
    from False h have "error_pattern s" by (simp add: IsEmptyMeasurement_pattern)
    with ne have "IsErrorMeasurement s = Inr True" by (simp add: IsErrorMeasurement_nonempty)
    with False show ?thesis using st by (simp add: FromString_def)
  qed
qed

lemma trace_and_error_example:
  "IsTraceMeasurement ''<0,1''" "error_pattern ''<0,1''" "error_pattern ''1.5.''"
  "error_pattern ''TRC''" "IsTraceMeasurement ''TRC''"
  by (simp_all add: IsTraceMeasurement_def strings_HasPrefix_def error_pattern_def errorChars_def
        strings_Count_def isLetter_def)

theorem FromString_error_first_witness:
  "(error_pattern ''<0,1'' \<or> empty_pattern ''<0,1'') \<and> IsTraceMeasurement ''<0,1'' \<and>
   FromString (\<lambda>s. Some (Num 7)) NewTraceMeasure ''<0,1'' = Inr NewEmptyMeasure \<and>
   FromString (\<lambda>s. Some (Num 7)) NewTraceMeasure ''1.5.'' = Inr NewEmptyMeasure \<and>
   FromString (\<lambda>s. Some (Num 7)) NewTraceMeasure ''TRC'' = Inr NewEmptyMeasure"
  using FromString_error_first [of "''<0,1''" "\<lambda>s. Some (Num 7)" NewTraceMeasure]
        FromString_error_first [of "''1.5.''" "\<lambda>s. Some (Num 7)" NewTraceMeasure]
        FromString_error_first [of "''TRC''" "\<lambda>s. Some (Num 7)" NewTraceMeasure]
  by (simp add: trace_and_error_example NewTraceMeasure_def NewEmptyMeasure_def)

text \<open>
  C10. \<^verbatim>\<open>FromString\<close> returns on every string: it gives a measure or the error of the
  numeric parser, never the panic of an index out of range. The empty string is caught
  by the empty-pattern test, so \<^verbatim>\<open>IsErrorMeasurement\<close> is only reached on a string that is
  not empty, where its \<^verbatim>\<open>str[0]\<close> is in range.
\<close>

theorem FromString_total:
  "FromString pf m s \<noteq> Inl IndexOutOfRange \<and>
   ((\<exists>m'. FromString pf m s = Inr m') \<or> FromString pf m s = Inl ParseFloatError) \<and>
   (\<not> IsEmptyMeasurement s \<longrightarrow> s \<noteq> [] \<and> (\<exists>b. IsErrorMeasurement s = Inr b))"
proof (cases "IsEmptyMeasurement s")
  case True
  then show ?thesis by (simp add: FromString_def)
next
  case False
  then have ne: "s \<noteq> []" using IsEmptyMeasurement_Nil by auto
  then have e: "IsErrorMeasurement s = Inr (error_pattern s)" by (rule IsErrorMeasurement_nonempty)
  show ?thesis using False ne e
    by (auto simp: FromString_def Let_def split: option.splits bool.splits)
qed

theorem FromString_total_witness:
  "FromString (\<lambda>s. None) NewTraceMeasure [] = Inr NewEmptyMeasure \<and>
   IsErrorMeasurement [] = Inl IndexOutOfRange \<and>
   \<not> IsEmptyMeasurement ''x'' \<and> IsErrorMeasurement ''x'' = Inr True \<and>
   FromString (\<lambda>s. None) NewTraceMeasure ''7'' = Inl ParseFloatError"
  using FromString_total [of "\<lambda>s. None" NewTraceMeasure "[]"]
    FromString_total [of "\<lambda>s. None" NewTraceMeasure "''x''"]
    FromString_total [of "\<lambda>s. None" NewTraceMeasure "''7''"]
  by (simp add: FromString_def IsEmptyMeasurement_def IsErrorMeasurement_def strings_Count_def
       strings_ContainsAny_def errorChars_def isLetter_def strings_HasPrefix_def
       NewTraceMeasure_def NewEmptyMeasure_def IsTraceMeasurement_def strings_TrimPrefix_def
       strings_TrimSuffix_def strings_HasSuffix_def)

section \<open>Validation of records\<close>

lemma IsBrandErroneous_iff:
  "IsBrandErroneous b \<longleftrightarrow>
     BrandName b = [] \<or> (\<exists>m\<in>set (measurementFields b). \<not> IsValidPercent m)"
  unfolding IsBrandErroneous_def measurementFields_def
  by (simp only: list.set ball_simps bex_simps if_bool_eq_conj, blast)

lemma IsValidPercent_Empty: "IsValidPercent NewEmptyMeasure"
  by (simp add: IsValidPercent_def NewEmptyMeasure_def IsEmpty_def measureEmptySentinel_def)

lemma blank_fields:
  "\<forall>m\<in>set (measurementFields (blankBrand\<lparr>BrandName := n, RegistrationNumber := r\<rparr>)).
     IsValidPercent m"
  by (simp add: measurementFields_def blankBrand_def IsValidPercent_Empty)

text \<open>
  C4 as stated fails: the field \<^verbatim>\<open>IsBrandErroneous\<close> requires is the brand name, not the
  registration number. A record with a name, no registration number and valid measures
  is kept; a record with a registration number, valid measures and no name is dropped.
\<close>

theorem CleanBrands_registration_counterexample:
  "RegistrationNumber (blankBrand\<lparr>BrandName := ''Sour Diesel'', RegistrationNumber := ''''\<rparr>) = '''' \<and>
   CleanBrands [blankBrand\<lparr>BrandName := ''Sour Diesel'', RegistrationNumber := ''''\<rparr>]
     = [blankBrand\<lparr>BrandName := ''Sour Diesel'', RegistrationNumber := ''''\<rparr>] \<and>
   RegistrationNumber (blankBrand\<lparr>BrandName := '''', RegistrationNumber := ''R-1''\<rparr>) \<noteq> '''' \<and>
   list_all IsValidPercent
     (measurementFields (blankBrand\<lparr>BrandName := '''', RegistrationNumber := ''R-1''\<rparr>)) \<and>
   CleanBrands [blankBrand\<lparr>BrandName := '''', RegistrationNumber := ''R-1''\<rparr>] = []"
  by (simp add: CleanBrands_def slices_DeleteFunc_def IsBrandErroneous_iff blank_fields list_all_iff)

text \<open>
  C4, amended. For every list of records, \<^verbatim>\<open>CleanBrands\<close> drops exactly the records whose
  brand name is empty or that have a measurement field failing \<^verbatim>\<open>IsValidPercent\<close>; the
  records it keeps are unchanged and in their order.
\<close>

theorem CleanBrands_filter:
  "CleanBrands bs =
     filter (\<lambda>b. BrandName b \<noteq> [] \<and> (\<forall>m\<in>set (measurementFields b). IsValidPercent m)) bs
   \<and> subseq (CleanBrands bs) bs"
proof -
  have "(\<lambda>b. \<not> IsBrandErroneous b) =
        (\<lambda>b. BrandName b \<noteq> [] \<and> (\<forall>m\<in>set (measurementFields b). IsValidPercent m))"
    by (rule ext) (simp only: IsBrandErroneous_iff, blast)
  then show ?thesis
    by (simp add: CleanBrands_def slices_DeleteFunc_def)
qed

theorem CleanBrands_filter_witness:
  "CleanBrands [blankBrand\<lparr>BrandName := ''a''\<rparr>, blankBrand,
                blankBrand\<lparr>BrandName := ''b'', Cbg := NewMeasure (Num 101)\<rparr>,
                blankBrand\<lparr>BrandName := ''c'', Cbg := NewMeasure (Num 50)\<rparr>]
    = [blankBrand\<lparr>BrandName := ''a''\<rparr>, blankBrand\<lparr>BrandName := ''c'', Cbg := NewMeasure (Num 50)\<rparr>]"
  using CleanBrands_filter [of "[blankBrand\<lparr>BrandName := ''a''\<rparr>, blankBrand,
                blankBrand\<lparr>BrandName := ''b'', Cbg := NewMeasure (Num 101)\<rparr>,
                blankBrand\<lparr>BrandName := ''c'', Cbg := NewMeasure (Num 50)\<rparr>]"]
  by (simp add: measurementFields_def blankBrand_def IsValidPercent_def NewEmptyMeasure_def
        IsEmpty_def IsZero_def IsTrace_def NewMeasure_def measureSentinelize_def math_IsNaN_def
        math_IsInf_def measureEmptySentinel_def f64_ge_def f64_le_def)

section \<open>Reading the cache\<close>

text \<open>
  C9 as stated fails: a file that exists and is fresh, and that \<^verbatim>\<open>os.ReadFile\<close> cannot read,
  gives the read error and not its contents.
\<close>

theorem CheckCacheFile_unreadable_counterexample:
  "CheckCacheFile
     [''us_ct_brands.json'' \<mapsto> \<lparr>contents = ''[]'', modTime = 0, readable = False\<rparr>]
     10 ''us_ct_brands.json'' 0
   = Inl CacheReadError"
  by (simp add: CheckCacheFile_def)

text \<open>
  C9, amended. \<^verbatim>\<open>CheckCacheFile\<close> fails with a miss when the file does not exist; fails as
  stale when \<open>maxAge\<close> is not zero and the age of the file (now minus its modification time)
  exceeds \<open>maxAge\<close>; otherwise it returns the full contents of the file if the file can be
  read, and fails with a read error if it cannot. With \<open>maxAge = 0\<close> there is no age test.
\<close>

theorem CheckCacheFile_cases:
  "CheckCacheFile fs now name maxAge =
     (case fs name of
        None \<Rightarrow> Inl CacheNotFound
      | Some f \<Rightarrow>
          if maxAge \<noteq> 0 \<and> now - modTime f > maxAge then Inl CacheTooOld
          else if readable f then Inr (contents f)
          else Inl CacheReadError)"
  by (auto simp: CheckCacheFile_def split: option.splits)

theorem CheckCacheFile_cases_witness:
  "CheckCacheFile Map.empty 10 ''a'' 5 = Inl CacheNotFound \<and>
   CheckCacheFile [''a'' \<mapsto> \<lparr>contents = ''[]'', modTime = 0, readable = True\<rparr>] 90 ''a'' 60
     = Inl CacheTooOld \<and>
   CheckCacheFile [''a'' \<mapsto> \<lparr>contents = ''[]'', modTime = 0, readable = True\<rparr>] 30 ''a'' 60
     = Inr ''[]'' \<and>
   CheckCacheFile [''a'' \<mapsto> \<lparr>contents = ''[]'', modTime = 0, readable = True\<rparr>] 90 ''a'' 0
     = Inr ''[]''"
  using CheckCacheFile_cases [of Map.empty 10 "''a''" 5]
    CheckCacheFile_cases [of "[''a'' \<mapsto> \<lparr>contents = ''[]'', modTime = 0, readable = True\<rparr>]" 90 "''a''" 60]
    CheckCacheFile_cases [of "[''a'' \<mapsto> \<lparr>contents = ''[]'', modTime = 0, readable = True\<rparr>]" 30 "''a''" 60]
    CheckCacheFile_cases [of "[''a'' \<mapsto> \<lparr>contents = ''[]'', modTime = 0, readable = True\<rparr>]" 90 "''a''" 0]
  by simp

section \<open>The page loop\<close>

lemma pageFails_batch: "pageFails remote unmarshal req \<longleftrightarrow> pageBatch remote unmarshal req = None"
  by (auto simp: pageFails_def pageBatch_def split: http_reply.splits)

lemma fetchStep_fail:
  assumes "pageBatch remote unmarshal (pageRequest tok (offset st)) = None"
  shows "\<exists>e st'. fetchStep remote unmarshal tok now st = Fail e st' \<and>
           requests st' = requests st @ [pageRequest tok (offset st)] \<and>
           e \<noteq> CacheFileError MkdirError \<and> e \<noteq> CacheFileError CreateError"
  using assms
  by (auto simp: fetchStep_def pageBatch_def Let_def split: http_reply.splits option.splits if_splits)

lemma fetchStep_short:
  assumes "pageBatch remote unmarshal (pageRequest tok (offset st)) = Some batch"
    and "length batch < batchLimit"
  shows "\<exists>st'. fetchStep remote unmarshal tok now st = Break st' \<and>
           brands st' = brands st @ batch \<and>
           requests st' = requests st @ [pageRequest tok (offset st)]"
  using assms
  by (auto simp: fetchStep_def pageBatch_def Let_def split: http_reply.splits option.splits if_splits)

lemma fetchStep_full:
  assumes "pageBatch remote unmarshal (pageRequest tok (offset st)) = Some batch"
    and "\<not> length batch < batchLimit"
  shows "\<exists>st'. fetchStep remote unmarshal tok now st = Continue st' \<and>
           brands st' = brands st @ batch \<and>
           requests st' = requests st @ [pageRequest tok (offset st)] \<and>
           offset st' = offset st + batchLimit"
  using assms
  by (auto simp: fetchStep_def pageBatch_def Let_def split: http_reply.splits option.splits if_splits)

lemma fetchStep_Break_iff:
  "(\<exists>st'. fetchStep remote unmarshal tok now st = Break st') \<longleftrightarrow>
   (\<exists>batch. pageBatch remote unmarshal (pageRequest tok (offset st)) = Some batch \<and> length batch < batchLimit)"
proof (cases "pageBatch remote unmarshal (pageRequest tok (offset st))")
  case None
  from fetchStep_fail [OF this, where now = now] show ?thesis using None by auto
next
  case (Some batch)
  show ?thesis
  proof (cases "length batch < batchLimit")
    case True
    from fetchStep_short [OF Some True, where now = now] show ?thesis using Some True by auto
  next
    case False
    from fetchStep_full [OF Some False, where now = now] show ?thesis using Some False by auto
  qed
qed

lemma upt_pages:
  "map (\<lambda>i. f (off + i * L)) [0..<Suc (Suc j)] = f off # map (\<lambda>i. f (off + L + i * L)) [0..<Suc j]"
proof -
  have "[0..<Suc (Suc j)] = 0 # map Suc [0..<Suc j]"
    by (simp only: map_Suc_upt upt_conv_Cons [of 0 "Suc (Suc j)"] zero_less_Suc if_True)
  then show ?thesis by (simp add: comp_def add.assoc del: upt_Suc)
qed

lemma fetchLoop_pages:
  assumes serve: "\<forall>off. pageBatch remote unmarshal (pageRequest tok off) = Some (take batchLimit (drop off coll))"
  shows "length coll = offset st + j * batchLimit \<Longrightarrow>
         \<exists>st'. fetchLoop remote unmarshal tok now st = Some (None, st') \<and>
               brands st' = brands st @ drop (offset st) coll \<and>
               requests st' = requests st @ map (\<lambda>i. pageRequest tok (offset st + i * batchLimit)) [0..<Suc j]"
proof (induction j arbitrary: st)
  case 0
  let ?batch = "take batchLimit (drop (offset st) coll)"
  have b: "pageBatch remote unmarshal (pageRequest tok (offset st)) = Some ?batch"
    using serve by simp
  have e: "drop (offset st) coll = []" using 0 by simp
  have short: "length ?batch < batchLimit" using e by (simp add: batchLimit_def)
  from fetchStep_short [OF b short, where now = now] obtain st' where
    s: "fetchStep remote unmarshal tok now st = Break st'"
       "brands st' = brands st @ ?batch"
       "requests st' = requests st @ [pageRequest tok (offset st)]" by blast
  have "fetchLoop remote unmarshal tok now st = Some (None, st')"
    by (subst fetchLoop.simps) (simp add: s(1))
  then show ?case using s e by simp
next
  case (Suc j)
  let ?batch = "take batchLimit (drop (offset st) coll)"
  have b: "pageBatch remote unmarshal (pageRequest tok (offset st)) = Some ?batch"
    using serve by simp
  have len: "length ?batch = batchLimit" using Suc.prems by simp
  then have full: "\<not> length ?batch < batchLimit" by simp
  from fetchStep_full [OF b full, where now = now] obtain st1 where
    s: "fetchStep remote unmarshal tok now st = Continue st1"
       "brands st1 = brands st @ ?batch"
       "requests st1 = requests st @ [pageRequest tok (offset st)]"
       "offset st1 = offset st + batchLimit" by blast
  have "length coll = offset st1 + j * batchLimit" using Suc.prems s(4) by simp
  from Suc.IH [OF this] obtain st' where
    r: "fetchLoop remote unmarshal tok now st1 = Some (None, st')"
       "brands st' = brands st1 @ drop (offset st1) coll"
       "requests st' = requests st1 @ map (\<lambda>i. pageRequest tok (offset st1 + i * batchLimit)) [0..<Suc j]"
    by blast
  have l: "fetchLoop remote unmarshal tok now st = Some (None, st')"
    by (subst fetchLoop.simps) (simp add: s(1) r(1))
  have d: "drop (offset st1) coll = drop batchLimit (drop (offset st) coll)"
    by (simp add: s(4) add.commute)
  have br: "brands st' = brands st @ drop (offset st) coll"
    by (simp only: r(2) s(2) d append_assoc append_take_drop_id)
  have rq: "requests st' = requests st @ map (\<lambda>i. pageRequest tok (offset st + i * batchLimit)) [0..<Suc (Suc j)]"
    by (simp only: r(3) s(3) s(4) upt_pages [of "pageRequest tok"] append_assoc append_Cons append_Nil)
  from l br rq show ?case by blast
qed

lemma fetchLoop_fails:
  "(\<forall>i<n. \<exists>batch. pageBatch remote unmarshal (pageRequest tok (offset st + i * batchLimit)) = Some batch
              \<and> batchLimit \<le> length batch) \<Longrightarrow>
   pageBatch remote unmarshal (pageRequest tok (offset st + n * batchLimit)) = None \<Longrightarrow>
   \<exists>e st'. fetchLoop remote unmarshal tok now st = Some (Some e, st') \<and>
          length (requests st') = length (requests st) + n + 1"
proof (induction n arbitrary: st)
  case 0
  then have "pageBatch remote unmarshal (pageRequest tok (offset st)) = None" by simp
  from fetchStep_fail [OF this, where now = now] obtain e st' where
    s: "fetchStep remote unmarshal tok now st = Fail e st'"
       "requests st' = requests st @ [pageRequest tok (offset st)]" by blast
  have "fetchLoop remote unmarshal tok now st = Some (Some e, st')"
    by (subst fetchLoop.simps) (simp add: s(1))
  then show ?case using s(2) by simp
next
  case (Suc n)
  from Suc.prems(1) obtain batch where
    b: "pageBatch remote unmarshal (pageRequest tok (offset st)) = Some batch"
    and full: "batchLimit \<le> length batch" by fastforce
  from full have nf: "\<not> length batch < batchLimit" by simp
  from fetchStep_full [OF b nf, where now = now] obtain st1 where
    s: "fetchStep remote unmarshal tok now st = Continue st1"
       "requests st1 = requests st @ [pageRequest tok (offset st)]"
       "offset st1 = offset st + batchLimit" by blast
  have p1: "\<forall>i<n. \<exists>batch. pageBatch remote unmarshal (pageRequest tok (offset st1 + i * batchLimit)) = Some batch
              \<and> batchLimit \<le> length batch"
  proof (intro allI impI)
    fix i assume "i < n"
    then have "Suc i < Suc n" by simp
    with Suc.prems(1) have "\<exists>batch. pageBatch remote unmarshal (pageRequest tok (offset st + Suc i * batchLimit)) = Some batch
              \<and> batchLimit \<le> length batch" by blast
    then show "\<exists>batch. pageBatch remote unmarshal (pageRequest tok (offset st1 + i * batchLimit)) = Some batch
              \<and> batchLimit \<le> length batch" by (simp add: s(3) add.assoc)
  qed
  have p2: "pageBatch remote unmarshal (pageRequest tok (offset st1 + n * batchLimit)) = None"
    using Suc.prems(2) by (simp add: s(3) add.assoc)
  from Suc.IH [OF p1 p2] obtain e st' where
    r: "fetchLoop remote unmarshal tok now st1 = Some (Some e, st')"
       "length (requests st') = length (requests st1) + n + 1" by blast
  have "fetchLoop remote unmarshal tok now st = Some (Some e, st')"
    by (subst fetchLoop.simps) (simp add: s(1) r(1))
  then show ?case using r(2) s(2) by simp
qed

lemma FetchBrands_fetch:
  assumes miss: "(case CheckCacheFile fs now BRAND_JSON_FILENAME maxAge of
                    Inr cacheBytes \<Rightarrow> unmarshal cacheBytes | Inl _ \<Rightarrow> None) = None"
  shows "FetchBrands remote unmarshal Created now fs tok maxAge =
     (case fetchLoop remote unmarshal tok now
             \<lparr>brands = [], offset = 0, firstLoop = True,
              cache = file_Write (fs(BRAND_JSON_FILENAME \<mapsto> \<lparr>contents = [], modTime = now, readable = True\<rparr>))
                        now BRAND_JSON_FILENAME ''['',
              requests = []\<rparr> of
        None \<Rightarrow> None
      | Some (Some err, st) \<Rightarrow> Some (Inl err, os_Remove (cache st) BRAND_JSON_FILENAME, requests st)
      | Some (None, st) \<Rightarrow>
          Some (Inr (brands st), file_Write (cache st) now BRAND_JSON_FILENAME '']'', requests st))"
  unfolding FetchBrands_def miss by (simp add: MakeCacheFile_def Let_def)

lemma short_batch_iff:
  assumes len: "length coll = k * batchLimit" and i: "i \<le> k"
  shows "length (take batchLimit (drop (i * batchLimit) coll)) < batchLimit \<longleftrightarrow> i = k"
proof (cases "i = k")
  case True
  then show ?thesis using len by (simp add: batchLimit_def)
next
  case False
  with i have "Suc i \<le> k" by simp
  then have "Suc i * batchLimit \<le> k * batchLimit" by (rule mult_le_mono1)
  then have "batchLimit \<le> k * batchLimit - i * batchLimit" by simp
  then show ?thesis using False len by simp
qed

text \<open>
  C1. When the remote collection holds exactly \<open>k * batchLimit\<close> records and every page
  request is answered with the records from its offset on, at most \<open>batchLimit\<close> of them,
  \<^verbatim>\<open>FetchBrands\<close> (finding no usable cache, and creating its cache file) returns: it has sent
  exactly \<open>k + 1\<close> page requests, at the offsets \<open>0, batchLimit, ..., k * batchLimit\<close>, the
  last of them answered with an empty batch, and its result is the whole collection. Of
  the batches fetched only the last is shorter than the limit; and a pass through the
  loop body ends the loop exactly when a batch was fetched and is shorter than the limit.
\<close>

theorem FetchBrands_pagination:
  assumes miss: "(case CheckCacheFile fs now BRAND_JSON_FILENAME maxAge of
                    Inr cacheBytes \<Rightarrow> unmarshal cacheBytes | Inl _ \<Rightarrow> None) = None"
    and serve: "\<forall>off. pageBatch remote unmarshal (pageRequest tok off)
                        = Some (take batchLimit (drop off coll))"
    and len: "length coll = k * batchLimit"
  shows "(\<exists>fs' reqs. FetchBrands remote unmarshal Created now fs tok maxAge = Some (Inr coll, fs', reqs)
            \<and> reqs = map (\<lambda>i. pageRequest tok (i * batchLimit)) [0..<k + 1]
            \<and> length reqs = k + 1
            \<and> pageBatch remote unmarshal (last reqs) = Some [])
         \<and> (\<forall>i\<le>k. length (take batchLimit (drop (i * batchLimit) coll)) < batchLimit \<longleftrightarrow> i = k)
         \<and> (\<forall>r u t n st. (\<exists>st'. fetchStep r u t n st = Break st') \<longleftrightarrow>
               (\<exists>batch. pageBatch r u (pageRequest t (offset st)) = Some batch
                        \<and> length batch < batchLimit))"
proof (intro conjI)
  let ?st0 = "\<lparr>brands = [], offset = 0, firstLoop = True,
              cache = file_Write (fs(BRAND_JSON_FILENAME \<mapsto> \<lparr>contents = [], modTime = now, readable = True\<rparr>))
                        now BRAND_JSON_FILENAME ''['',
              requests = []\<rparr>"
  have "length coll = offset ?st0 + k * batchLimit" using len by simp
  from fetchLoop_pages [OF serve this, where now = now] obtain st' where
    l: "fetchLoop remote unmarshal tok now ?st0 = Some (None, st')"
    and b: "brands st' = coll"
    and r: "requests st' = map (\<lambda>i. pageRequest tok (i * batchLimit)) [0..<Suc k]"
    by auto
  have f: "FetchBrands remote unmarshal Created now fs tok maxAge =
        Some (Inr coll, file_Write (cache st') now BRAND_JSON_FILENAME '']'', requests st')"
    by (simp only: FetchBrands_fetch [OF miss] l b option.case prod.case)
  have la: "last (requests st') = pageRequest tok (k * batchLimit)"
    by (simp add: r)
  have "pageBatch remote unmarshal (last (requests st')) = Some []"
    using serve len by (simp add: la)
  then show "\<exists>fs' reqs. FetchBrands remote unmarshal Created now fs tok maxAge = Some (Inr coll, fs', reqs)
            \<and> reqs = map (\<lambda>i. pageRequest tok (i * batchLimit)) [0..<k + 1]
            \<and> length reqs = k + 1
            \<and> pageBatch remote unmarshal (last reqs) = Some []"
    using f r by simp
next
  show "\<forall>i\<le>k. length (take batchLimit (drop (i * batchLimit) coll)) < batchLimit \<longleftrightarrow> i = k"
    using short_batch_iff [OF len] by blast
next
  show "\<forall>r u t n st. (\<exists>st'. fetchStep r u t n st = Break st') \<longleftrightarrow>
               (\<exists>batch. pageBatch r u (pageRequest t (offset st)) = Some batch
                        \<and> length batch < batchLimit)"
    using fetchStep_Break_iff by blast
qed

theorem FetchBrands_pagination_witness:
  "\<exists>fs'. FetchBrands
      (\<lambda>req. Response 200 (replicate (min (q_limit req) (5000 - q_offset req)) CHR ''x'') False)
      (\<lambda>body. Some (replicate (length body) blankBrand))
      Created 0 Map.empty '''' 0
    = Some (Inr (replicate 5000 blankBrand), fs', [pageRequest '''' 0, pageRequest '''' 5000])"
  using FetchBrands_pagination [where fs = Map.empty and now = 0 and maxAge = 0
      and unmarshal = "\<lambda>body. Some (replicate (length body) blankBrand)"
      and remote = "\<lambda>req. Response 200 (replicate (min (q_limit req) (5000 - q_offset req)) CHR ''x'') False"
      and tok = "''''" and coll = "replicate 5000 blankBrand" and k = 1]
  by (simp add: CheckCacheFile_def pageBatch_def pageRequest_def batchLimit_def)

text \<open>
  C2. Once the cache file has been created, every return of \<^verbatim>\<open>FetchBrands\<close> with an error
  leaves no cache file behind, and the result then holds no records. And a failing page
  does make it return so: when the first \<open>n\<close> pages come back full and page \<open>n\<close> fails (the
  transport, reading the body, the status, or the decoding), \<^verbatim>\<open>FetchBrands\<close> returns an
  error after \<open>n + 1\<close> requests, and the file, with the \<open>n\<close> pages written to it, is gone.
\<close>

theorem FetchBrands_failure_removes_cache:
  assumes miss: "(case CheckCacheFile fs now BRAND_JSON_FILENAME maxAge of
                    Inr cacheBytes \<Rightarrow> unmarshal cacheBytes | Inl _ \<Rightarrow> None) = None"
  shows "(\<forall>e fs' reqs. FetchBrands remote unmarshal Created now fs tok maxAge = Some (Inl e, fs', reqs)
            \<longrightarrow> fs' BRAND_JSON_FILENAME = None)
       \<and> ((\<forall>i<n. \<exists>batch. pageBatch remote unmarshal (pageRequest tok (i * batchLimit)) = Some batch
                          \<and> batchLimit \<le> length batch)
            \<and> pageFails remote unmarshal (pageRequest tok (n * batchLimit))
          \<longrightarrow> (\<exists>e fs' reqs. FetchBrands remote unmarshal Created now fs tok maxAge = Some (Inl e, fs', reqs)
                  \<and> fs' BRAND_JSON_FILENAME = None \<and> length reqs = n + 1))"
proof (intro conjI allI impI)
  fix e fs' reqs
  assume "FetchBrands remote unmarshal Created now fs tok maxAge = Some (Inl e, fs', reqs)"
  then show "fs' BRAND_JSON_FILENAME = None"
    unfolding FetchBrands_fetch [OF miss]
    by (auto simp: os_Remove_def split: option.splits prod.splits)
next
  let ?st0 = "\<lparr>brands = [], offset = 0, firstLoop = True,
              cache = file_Write (fs(BRAND_JSON_FILENAME \<mapsto> \<lparr>contents = [], modTime = now, readable = True\<rparr>))
                        now BRAND_JSON_FILENAME ''['',
              requests = []\<rparr>"
  assume h: "(\<forall>i<n. \<exists>batch. pageBatch remote unmarshal (pageRequest tok (i * batchLimit)) = Some batch
                          \<and> batchLimit \<le> length batch)
            \<and> pageFails remote unmarshal (pageRequest tok (n * batchLimit))"
  then have p1: "\<forall>i<n. \<exists>batch. pageBatch remote unmarshal (pageRequest tok (offset ?st0 + i * batchLimit)) = Some batch
                          \<and> batchLimit \<le> length batch" by simp
  from h have p2: "pageBatch remote unmarshal (pageRequest tok (offset ?st0 + n * batchLimit)) = None"
    by (simp add: pageFails_batch)
  from fetchLoop_fails [OF p1 p2, where now = now] obtain e st' where
    l: "fetchLoop remote unmarshal tok now ?st0 = Some (Some e, st')"
    and r: "length (requests st') = n + 1" by auto
  have "FetchBrands remote unmarshal Created now fs tok maxAge =
          Some (Inl e, os_Remove (cache st') BRAND_JSON_FILENAME, requests st')"
    by (simp only: FetchBrands_fetch [OF miss] l option.case prod.case)
  then show "\<exists>e fs' reqs. FetchBrands remote unmarshal Created now fs tok maxAge = Some (Inl e, fs', reqs)
                  \<and> fs' BRAND_JSON_FILENAME = None \<and> length reqs = n + 1"
    using r by (simp add: os_Remove_def)
qed

theorem FetchBrands_failure_removes_cache_witness:
  "\<exists>e fs' reqs. FetchBrands
      (\<lambda>req. if q_offset req = 0 then Response 200 ''[page one]'' False
             else Response 500 ''Internal Server Error'' False)
      (\<lambda>body. if body = ''[page one]'' then Some (replicate 5000 blankBrand) else None)
      Created 0 Map.empty '''' 0
    = Some (Inl e, fs', reqs) \<and> fs' BRAND_JSON_FILENAME = None \<and> length reqs = 2"
  using FetchBrands_failure_removes_cache [where fs = Map.empty and now = 0 and maxAge = 0
      and unmarshal = "\<lambda>body. if body = ''[page one]'' then Some (replicate 5000 blankBrand) else None"
      and remote = "\<lambda>req. if q_offset req = 0 then Response 200 ''[page one]'' False
             else Response 500 ''Internal Server Error'' False"
      and tok = "''''" and n = 1]
  by (simp add: CheckCacheFile_def pageBatch_def pageFails_def pageRequest_def batchLimit_def
        numeral_2_eq_2)

end
